theory Spec2Isabelle
  imports Main
begin

section \<open>Comment creation over HTTP (handlers.go, handleCreateComment)\<close>

text \<open>
  The \<open>Comment\<close> struct, as far as the handlers read and write it. Go's pointer fields
  (\<open>*int\<close>) are options: \<open>nil\<close> is \<open>None\<close>. A field absent from the JSON body is
  left at its zero value by the decoder: the empty string, or \<open>nil\<close>.
\<close>

record comment =
  ID :: int
  ProjectDirectory :: string
  FilePath :: string
  LineStart :: "int option"
  LineEnd :: "int option"
  SelectedText :: string
  CommentText :: string
  Author :: string
  RootID :: "int option"
  RenderedHTML :: string

text \<open>An HTTP response: status code and body. \<open>http.Error w msg code\<close> is \<open>Response code msg\<close>.\<close>

datatype response = Response (status: nat) (body: string)

text \<open>
  What the handler calls and this file does not define: the storage layer's
  \<open>createComment\<close> (it may fail; on success it returns the comment with its id and the
  new store), \<open>RenderMarkdown\<close>, \<open>strings.TrimSpace\<close> and the JSON encoder. \<open>Inl\<close> is the
  error, carrying its text.
\<close>

record 'db collaborators =
  createComment :: "comment \<Rightarrow> 'db \<Rightarrow> string + comment \<times> 'db"
  RenderMarkdown :: "string \<Rightarrow> string + string"
  TrimSpace :: "string \<Rightarrow> string"
  Encode :: "comment \<Rightarrow> string + string"

text \<open>
  The checks of \<open>handleCreateComment\<close>, in the order of the source. The result is the
  message of the first check that fails.
\<close>

definition validateRoot :: "comment \<Rightarrow> string option" where
  "validateRoot c =
     (case LineStart c of
        None \<Rightarrow> Some ''line_start must be positive''
      | Some s \<Rightarrow>
          if s \<le> 0 then Some ''line_start must be positive''
          else (case LineEnd c of
                  None \<Rightarrow> Some ''line_end must be positive''
                | Some e \<Rightarrow>
                    if e \<le> 0 then Some ''line_end must be positive''
                    else if e < s then Some ''line_end must be >= line_start''
                    else if SelectedText c = []
                      then Some ''selected_text is required for root comments''
                    else None))"

definition validateComment :: "comment \<Rightarrow> string option" where
  "validateComment c =
     (if ProjectDirectory c = [] then Some ''project_directory is required''
      else if FilePath c = [] then Some ''file_path is required''
      else (case (if RootID c = None then validateRoot c else None) of
              Some msg \<Rightarrow> Some msg
            | None \<Rightarrow>
                if CommentText c = [] then Some ''comment_text is required'' else None))"

text \<open>The default of the author, applied after the checks.\<close>

definition defaultAuthor :: "comment \<Rightarrow> comment" where
  "defaultAuthor c = (if Author c = [] then c\<lparr>Author := ''user''\<rparr> else c)"

text \<open>The rest of the handler: store, render, encode.\<close>

definition storeAndRespond :: "'db collaborators \<Rightarrow> comment \<Rightarrow> 'db \<Rightarrow> response \<times> 'db" where
  "storeAndRespond env c db =
     (case createComment env c db of
        Inl err \<Rightarrow> (Response 500 err, db)
      | Inr (c', db') \<Rightarrow>
          (case RenderMarkdown env (CommentText c') of
             Inl err \<Rightarrow> (Response 500 (''failed to render markdown: '' @ err), db')
           | Inr rendered \<Rightarrow>
               (case Encode env (c'\<lparr>RenderedHTML := TrimSpace env rendered\<rparr>) of
                  Inl err \<Rightarrow> (Response 500 err, db')
                | Inr json \<Rightarrow> (Response 200 json, db'))))"

text \<open>
  \<open>handleCreateComment\<close>. The first argument after the collaborators is the result of
  decoding the request body (\<open>Inl\<close>: the body is not the JSON of a comment).
\<close>

definition handleCreateComment ::
  "'db collaborators \<Rightarrow> string + comment \<Rightarrow> 'db \<Rightarrow> response \<times> 'db" where
  "handleCreateComment env decoded db =
     (case decoded of
        Inl err \<Rightarrow> (Response 400 err, db)
      | Inr c \<Rightarrow>
          (case validateComment c of
             Some msg \<Rightarrow> (Response 400 msg, db)
           | None \<Rightarrow> storeAndRespond env (defaultAuthor c) db))"

text \<open>What the claim calls a violation, for a root comment.\<close>

definition rootViolation :: "comment \<Rightarrow> bool" where
  "rootViolation c \<longleftrightarrow>
     (case LineStart c of None \<Rightarrow> True | Some s \<Rightarrow> s \<le> 0) \<or>
     (case LineEnd c of None \<Rightarrow> True | Some e \<Rightarrow> e \<le> 0) \<or>
     (case LineStart c of
        None \<Rightarrow> False
      | Some s \<Rightarrow> (case LineEnd c of None \<Rightarrow> False | Some e \<Rightarrow> e < s)) \<or>
     SelectedText c = [] \<or> CommentText c = []"

text \<open>A store for the concrete runs: the list of the comments, ids counted from 1.\<close>

definition listStore :: "(comment list) collaborators" where
  "listStore = \<lparr> createComment = (\<lambda>c db. Inr (c\<lparr>ID := int (length db) + 1\<rparr>,
                                              db @ [c\<lparr>ID := int (length db) + 1\<rparr>])),
                 RenderMarkdown = (\<lambda>s. Inr (''<p>'' @ s @ ''</p>'')),
                 TrimSpace = (\<lambda>s. s),
                 Encode = (\<lambda>c. Inr (CommentText c)) \<rparr>"

definition rootComment :: comment where
  "rootComment = \<lparr> ID = 0, ProjectDirectory = ''/p'', FilePath = ''test.md'',
                   LineStart = Some 1, LineEnd = Some 1, SelectedText = ''Test'',
                   CommentText = ''hello'', Author = [], RootID = None, RenderedHTML = [] \<rparr>"

definition replyComment :: comment where
  "replyComment = \<lparr> ID = 0, ProjectDirectory = ''/p'', FilePath = ''test.md'',
                    LineStart = None, LineEnd = None, SelectedText = [],
                    CommentText = ''a reply'', Author = [], RootID = Some 1, RenderedHTML = [] \<rparr>"

section \<open>Serving project files (handlers.go, handleProjectFiles)\<close>

subsection \<open>The string and path functions of Go's library that the handler calls\<close>

text \<open>\<open>strings.HasPrefix\<close>, \<open>strings.HasSuffix\<close> and \<open>strings.TrimPrefix\<close>, on bytes.\<close>

definition HasPrefix :: "string \<Rightarrow> string \<Rightarrow> bool" where
  "HasPrefix s p \<longleftrightarrow> take (length p) s = p"

definition HasSuffix :: "string \<Rightarrow> string \<Rightarrow> bool" where
  "HasSuffix s p \<longleftrightarrow> length p \<le> length s \<and> drop (length s - length p) s = p"

definition TrimPrefix :: "string \<Rightarrow> string \<Rightarrow> string" where
  "TrimPrefix s p = (if HasPrefix s p then drop (length p) s else s)"

text \<open>
  \<open>strings.ToLower\<close> on the ASCII letters. Go also lowers letters beyond ASCII; none of
  them becomes one of the bytes of \<open>.md\<close>, the only thing the handler looks for in the
  result.
\<close>

definition ToLower :: "string \<Rightarrow> string" where
  "ToLower s = map (\<lambda>c. let n = (of_char c :: nat)
                         in if 65 \<le> n \<and> n \<le> 90 then char_of (n + 32) else c) s"

text \<open>
  \<open>url.PathUnescape\<close>: every \<open>%XX\<close> becomes the byte with that hexadecimal code; a
  \<open>%\<close> not followed by two hexadecimal digits is an error (\<open>None\<close>).
\<close>

definition ishex :: "char \<Rightarrow> bool" where
  "ishex c \<longleftrightarrow> (let n = (of_char c :: nat) in
      (48 \<le> n \<and> n \<le> 57) \<or> (97 \<le> n \<and> n \<le> 102) \<or> (65 \<le> n \<and> n \<le> 70))"

definition unhex :: "char \<Rightarrow> nat" where
  "unhex c = (let n = (of_char c :: nat) in
      if 48 \<le> n \<and> n \<le> 57 then n - 48
      else if 97 \<le> n \<and> n \<le> 102 then n - 97 + 10
      else if 65 \<le> n \<and> n \<le> 70 then n - 65 + 10
      else 0)"

fun PathUnescape :: "string \<Rightarrow> string option" where
  "PathUnescape [] = Some []"
| "PathUnescape (c # cs) =
     (if c = CHR ''%'' then
        (case cs of
           h1 # h2 # rest \<Rightarrow>
             if ishex h1 \<and> ishex h2
             then map_option ((#) (char_of (16 * unhex h1 + unhex h2))) (PathUnescape rest)
             else None
         | _ \<Rightarrow> None)
      else map_option ((#) c) (PathUnescape cs))"

text \<open>
  \<open>url.PathEscape\<close>: letters, digits and \<open>-_.~$&+:=@\<close> stay, every other byte (the
  slash among them) becomes \<open>%XX\<close> in upper-case hexadecimal.
\<close>

definition shouldEscape :: "char \<Rightarrow> bool" where
  "shouldEscape c \<longleftrightarrow> (let n = (of_char c :: nat) in
      \<not> ((48 \<le> n \<and> n \<le> 57) \<or> (65 \<le> n \<and> n \<le> 90) \<or> (97 \<le> n \<and> n \<le> 122) \<or>
         c \<in> set ''-_.~$&+:=@''))"

definition hexDigit :: "nat \<Rightarrow> char" where
  "hexDigit n = (if n < 10 then char_of (48 + n) else char_of (55 + n))"

definition PathEscape :: "string \<Rightarrow> string" where
  "PathEscape s = concat (map (\<lambda>c. if shouldEscape c
        then [CHR ''%'', hexDigit ((of_char c :: nat) div 16), hexDigit ((of_char c :: nat) mod 16)]
        else [c]) s)"

text \<open>\<open>strings.Split s "/"\<close> and \<open>strings.Join elems "/"\<close>.\<close>

fun Split :: "string \<Rightarrow> string list" where
  "Split [] = [[]]"
| "Split (c # cs) =
     (if c = CHR ''/'' then [] # Split cs
      else (case Split cs of [] \<Rightarrow> [[c]] | x # xs \<Rightarrow> (c # x) # xs))"

fun JoinSlash :: "string list \<Rightarrow> string" where
  "JoinSlash [] = []"
| "JoinSlash [x] = x"
| "JoinSlash (x # y # ys) = x @ ''/'' @ JoinSlash (y # ys)"

text \<open>
  \<open>filepath.Clean\<close> on Unix: empty elements and \<open>.\<close> are dropped, \<open>..\<close> removes the
  element before it, at the root it is dropped, and at the start of a relative path
  it stays. The second argument of \<open>cleanElems\<close> is the output so far, last element
  first.
\<close>

fun cleanElems :: "bool \<Rightarrow> string list \<Rightarrow> string list \<Rightarrow> string list" where
  "cleanElems rooted out [] = rev out"
| "cleanElems rooted out (e # es) =
     (if e = [] \<or> e = ''.'' then cleanElems rooted out es
      else if e = ''..'' then
        (case out of
           [] \<Rightarrow> if rooted then cleanElems rooted [] es else cleanElems rooted [''..''] es
         | t # ts \<Rightarrow>
             if t = ''..'' then cleanElems rooted (''..'' # out) es
             else cleanElems rooted ts es)
      else cleanElems rooted (e # out) es)"

definition Clean :: "string \<Rightarrow> string" where
  "Clean path =
     (if path = [] then ''.''
      else let rooted = HasPrefix path ''/'';
               out = JoinSlash (cleanElems rooted [] (Split path))
           in if rooted then ''/'' @ out else if out = [] then ''.'' else out)"

text \<open>\<open>filepath.Join\<close>: the non-empty elements, joined by slashes and cleaned.\<close>

definition Join :: "string list \<Rightarrow> string" where
  "Join elems =
     (let ne = filter (\<lambda>e. e \<noteq> []) elems
      in if ne = [] then [] else Clean (JoinSlash ne))"

text \<open>The name that \<open>os.Stat\<close> reports for a cleaned path: its last element.\<close>

definition Base :: "string \<Rightarrow> string" where
  "Base path = (if path = ''/'' then ''/'' else last (Split path))"

subsection \<open>The handler\<close>

text \<open>
  A file system maps a cleaned absolute path to what is there. The request carries
  \<open>r.URL.Path\<close> (decoded once by the HTTP server) and \<open>r.URL.RawPath\<close> (the path as
  sent, or empty when it is the default encoding of \<open>Path\<close>).
\<close>

datatype node = Dir | File string

record request =
  URL_Path :: string
  URL_RawPath :: string

text \<open>
  What the handler uses and this file does not define: the list of the registered
  project directories (\<open>getAllProjects\<close>, which may fail), the file system, the page
  that the viewer template makes of a project, a file path and the file's content
  (rendering, the comments of the file and the template may fail), the page of a
  directory listing, and \<open>http.FileServer\<close> on a root directory and an URL path.
\<close>

record site =
  getAllProjects :: "string + string list"
  Stat :: "string \<Rightarrow> node option"
  viewerPage :: "string \<Rightarrow> string \<Rightarrow> string \<Rightarrow> string + string"
  directoryPage :: "string \<Rightarrow> string \<Rightarrow> string + string"
  FileServer :: "string \<Rightarrow> string \<Rightarrow> response"

definition NotFound :: response where
  "NotFound = Response 404 ''404 page not found''"

text \<open>
  The loop over the projects: the first one that is the decoded path or a directory
  above it, with the rest of the path.
\<close>

fun findProject :: "string \<Rightarrow> string list \<Rightarrow> (string \<times> string) option" where
  "findProject decodedPath [] = None"
| "findProject decodedPath (p # ps) =
     (if decodedPath = p \<or> HasPrefix decodedPath (p @ ''/'')
      then Some (p, TrimPrefix (TrimPrefix decodedPath p) ''/'')
      else findProject decodedPath ps)"

definition renderViewer :: "site \<Rightarrow> string \<Rightarrow> string \<Rightarrow> response" where
  "renderViewer env projectDir filePath =
     (case Stat env (Join [projectDir, filePath]) of
        Some (File content) \<Rightarrow>
          (case viewerPage env projectDir filePath content of
             Inl err \<Rightarrow> Response 500 err
           | Inr html \<Rightarrow> Response 200 html)
      | _ \<Rightarrow> Response 500 ''read error'')"

definition renderDirectoryListing :: "site \<Rightarrow> string \<Rightarrow> string \<Rightarrow> response" where
  "renderDirectoryListing env projectDir childPath =
     (case directoryPage env projectDir childPath of
        Inl err \<Rightarrow> Response 500 err
      | Inr html \<Rightarrow> Response 200 html)"

text \<open>\<open>http.StripPrefix prefix (http.FileServer (http.Dir project))\<close>.\<close>

definition StripPrefix :: "site \<Rightarrow> string \<Rightarrow> string \<Rightarrow> request \<Rightarrow> response" where
  "StripPrefix env pfx project r =
     (let p = TrimPrefix (URL_Path r) pfx;
          rp = TrimPrefix (URL_RawPath r) pfx
      in if length p < length (URL_Path r) \<and>
            (URL_RawPath r = [] \<or> length rp < length (URL_RawPath r))
         then FileServer env project p
         else NotFound)"

definition handleProjectFiles :: "site \<Rightarrow> request \<Rightarrow> response" where
  "handleProjectFiles env r =
     (let fullPath = TrimPrefix (URL_Path r) ''/projects/'';
          fullPath' = (if \<not> HasPrefix fullPath ''/'' then ''/'' @ fullPath else fullPath)
      in case PathUnescape fullPath' of
           None \<Rightarrow> Response 400 ''Invalid path''
         | Some decodedPath \<Rightarrow>
             (case getAllProjects env of
                Inl err \<Rightarrow> Response 500 err
              | Inr projects \<Rightarrow>
                  (case findProject decodedPath projects of
                     None \<Rightarrow> NotFound
                   | Some (project, childPath) \<Rightarrow>
                       if project = [] then NotFound
                       else let absPath = Join [project, childPath]
                         in (case Stat env absPath of
                               None \<Rightarrow> NotFound
                             | Some info \<Rightarrow>
                                 if info = Dir then
                                   (if \<not> HasSuffix (URL_Path r) ''/''
                                    then Response 301 (URL_Path r @ ''/'')
                                    else renderDirectoryListing env project childPath)
                                 else if HasSuffix (ToLower (Base absPath)) ''.md''
                                   then renderViewer env project childPath
                                 else StripPrefix env (''/projects/'' @ PathEscape project)
                                        project r))))"

text \<open>
  A site for the concrete runs: one project, \<open>/srv/project\<close>, with \<open>test.md\<close> in it,
  and two files beside the project directory. The viewer page is the file's content
  between two tags.
\<close>

definition demoSite :: site where
  "demoSite = \<lparr> getAllProjects = Inr [''/srv/project''],
                Stat = map_of [(''/srv'', Dir), (''/srv/project'', Dir),
                               (''/srv/project/test.md'', File ''# Test Document''),
                               (''/srv/secret.md'', File ''SECRET DATA''),
                               (''/srv/secret.txt'', File ''SECRET DATA'')],
                viewerPage = (\<lambda>projectDir filePath content. Inr (''<main>'' @ content @ ''</main>'')),
                directoryPage = (\<lambda>projectDir childPath. Inr (''listing of '' @ childPath)),
                FileServer = (\<lambda>root path. NotFound) \<rparr>"

section \<open>Theorems\<close>

lemma validateComment_root_violation:
  "RootID c = None \<Longrightarrow> rootViolation c \<Longrightarrow> \<exists>msg. validateComment c = Some msg"
  by (auto simp: validateComment_def validateRoot_def rootViolation_def split: option.splits)

lemma validateComment_root_ok:
  "RootID c = None \<Longrightarrow> \<not> rootViolation c \<Longrightarrow> ProjectDirectory c \<noteq> [] \<Longrightarrow> FilePath c \<noteq> []
   \<Longrightarrow> validateComment c = None"
  by (auto simp: validateComment_def validateRoot_def rootViolation_def split: option.splits)

lemma validateComment_reply:
  "RootID c \<noteq> None \<Longrightarrow> ProjectDirectory c \<noteq> [] \<Longrightarrow> FilePath c \<noteq> [] \<Longrightarrow> CommentText c \<noteq> []
   \<Longrightarrow> validateComment c = None"
  by (auto simp: validateComment_def)

lemma validateComment_project_file:
  "ProjectDirectory c = [] \<or> FilePath c = [] \<Longrightarrow> \<exists>msg. validateComment c = Some msg"
  by (auto simp: validateComment_def)

text \<open>
  C10. A root comment (no \<open>root_id\<close>) whose \<open>line_start\<close> or \<open>line_end\<close> is absent or not
  positive, whose \<open>line_end\<close> is below \<open>line_start\<close>, or whose \<open>selected_text\<close> or
  \<open>comment_text\<close> is empty is answered 400 and the store is left as it was, whatever the
  storage layer would do. A root comment with none of these violations, and a reply
  with any line numbers and selected text at all, passes the checks (given the project
  directory and file path, and for the reply the comment text) and goes to the store.
  The comment that goes to the store has the author \<open>user\<close> when none was given.
\<close>

theorem handleCreateComment_validation:
  "(RootID c = None \<and> rootViolation c \<longrightarrow>
      (\<exists>msg. handleCreateComment env (Inr c) db = (Response 400 msg, db))) \<and>
   (RootID c = None \<and> \<not> rootViolation c \<and> ProjectDirectory c \<noteq> [] \<and> FilePath c \<noteq> [] \<longrightarrow>
      handleCreateComment env (Inr c) db = storeAndRespond env (defaultAuthor c) db) \<and>
   (RootID c \<noteq> None \<and> ProjectDirectory c \<noteq> [] \<and> FilePath c \<noteq> [] \<and> CommentText c \<noteq> [] \<longrightarrow>
      handleCreateComment env (Inr c) db = storeAndRespond env (defaultAuthor c) db) \<and>
   (Author c = [] \<longrightarrow> Author (defaultAuthor c) = ''user'') \<and>
   (Author c \<noteq> [] \<longrightarrow> defaultAuthor c = c)"
proof (intro conjI impI)
  assume "RootID c = None \<and> rootViolation c"
  then obtain msg where "validateComment c = Some msg"
    using validateComment_root_violation by blast
  then show "\<exists>msg. handleCreateComment env (Inr c) db = (Response 400 msg, db)"
    by (simp add: handleCreateComment_def)
next
  assume "RootID c = None \<and> \<not> rootViolation c \<and> ProjectDirectory c \<noteq> [] \<and> FilePath c \<noteq> []"
  then have "validateComment c = None"
    using validateComment_root_ok by blast
  then show "handleCreateComment env (Inr c) db = storeAndRespond env (defaultAuthor c) db"
    by (simp add: handleCreateComment_def)
next
  assume "RootID c \<noteq> None \<and> ProjectDirectory c \<noteq> [] \<and> FilePath c \<noteq> [] \<and> CommentText c \<noteq> []"
  then have "validateComment c = None"
    using validateComment_reply by blast
  then show "handleCreateComment env (Inr c) db = storeAndRespond env (defaultAuthor c) db"
    by (simp add: handleCreateComment_def)
next
  assume "Author c = []"
  then show "Author (defaultAuthor c) = ''user''"
    by (simp add: defaultAuthor_def)
next
  assume "Author c \<noteq> []"
  then show "defaultAuthor c = c"
    by (simp add: defaultAuthor_def)
qed

text \<open>
  The theorem at concrete requests against the list store: a root comment without
  \<open>line_start\<close> is refused and nothing is stored; the same comment with its line numbers
  is stored with the author \<open>user\<close>; so is a reply without line numbers or selected text.
\<close>

theorem handleCreateComment_validation_witness:
  "(\<exists>msg. handleCreateComment listStore (Inr (rootComment\<lparr>LineStart := None\<rparr>)) []
            = (Response 400 msg, [])) \<and>
   handleCreateComment listStore (Inr rootComment) []
     = (Response 200 ''hello'', [rootComment\<lparr>ID := 1, Author := ''user''\<rparr>]) \<and>
   handleCreateComment listStore (Inr replyComment) [rootComment]
     = (Response 200 ''a reply'', [rootComment, replyComment\<lparr>ID := 2, Author := ''user''\<rparr>]) \<and>
   Author (defaultAuthor rootComment) = ''user'' \<and>
   defaultAuthor (rootComment\<lparr>Author := ''agent''\<rparr>) = rootComment\<lparr>Author := ''agent''\<rparr>"
  using handleCreateComment_validation [of "rootComment\<lparr>LineStart := None\<rparr>" listStore "[]"]
    handleCreateComment_validation [of rootComment listStore "[]"]
    handleCreateComment_validation [of replyComment listStore "[rootComment]"]
    handleCreateComment_validation [of "rootComment\<lparr>Author := ''agent''\<rparr>" listStore "[]"]
  by (simp add: rootViolation_def rootComment_def replyComment_def storeAndRespond_def
      listStore_def defaultAuthor_def)

text \<open>
  C9, at one request. With the project \<open>/srv/project\<close> registered, the request path
  \<open>/projects/srv/project/../secret.md\<close> passes the prefix test on the decoded path,
  \<open>filepath.Join\<close> resolves it to \<open>/srv/secret.md\<close>, which is not under the project
  directory, and the handler answers 200 with the viewer page of that file. The same
  happens when the client sends the two dots percent-encoded twice, which the
  handler's own \<open>PathUnescape\<close> decodes.
\<close>

theorem handleProjectFiles_traversal:
  "handleProjectFiles demoSite \<lparr> URL_Path = ''/projects/srv/project/../secret.md'', URL_RawPath = [] \<rparr>
     = Response 200 ''<main>SECRET DATA</main>'' \<and>
   handleProjectFiles demoSite \<lparr> URL_Path = ''/projects/srv/project/%2E%2E/secret.md'',
                                 URL_RawPath = ''/projects/srv/project/%252E%252E/secret.md'' \<rparr>
     = Response 200 ''<main>SECRET DATA</main>'' \<and>
   Join [''/srv/project'', ''../secret.md''] = ''/srv/secret.md'' \<and>
   \<not> HasPrefix ''/srv/secret.md'' ''/srv/project/''"
  by code_simp

end
